theory Spec2Isabelle
  imports Complex_Main
begin

section \<open>The answer service\<close>

text \<open>
  The answer operation runs on the server, whose code is not among the sources at hand
  (they hold the Angular client only). It is modelled here from section 4.5 of the
  specification. Its collaborators are arguments: the Redaction Gate, the embedding
  provider, the Vector Index, the completion provider and the prompt template.
\<close>

text \<open>Modelled from the spec: the PII Report \<open>{total_count: integer \<ge> 0, entities: mapping
  entity_type \<rightarrow> count}\<close> of section 3.\<close>

record PIIReport =
  total_count :: nat
  entities :: "(string \<times> nat) list"

text \<open>Modelled from the spec: what \<open>search\<close> returns for one chunk, its title and URL and its
  text, which was redacted when it was indexed.\<close>

record Hit =
  hit_title :: string
  hit_url :: string
  hit_text :: string

text \<open>Modelled from the spec: the result \<open>{response_text, sources, pii_filtered: bool,
  pii_report?}\<close> of \<open>answer\<close>; a source is a pair of a title and a URL.\<close>

record AnswerResult =
  response_text :: string
  sources :: "(string \<times> string) list"
  pii_filtered :: bool
  pii_report :: "PIIReport option"

text \<open>Modelled from the spec: the ways \<open>answer\<close> fails. The gate fails closed for a query when
  the detector is unavailable; a failure of the completion provider is the distinct condition
  \<open>ServiceUnavailable\<close>.\<close>

datatype answer_error = RedactionUnavailable | EmbeddingUnavailable | ServiceUnavailable

text \<open>Modelled from the spec: what leaves the operation, a text sent to the embedding provider
  or a prompt sent to the completion provider. The operation writes to no store.\<close>

datatype outbound = ToEmbedding string | ToCompletion string

text \<open>Modelled from the spec: the collaborators of section 6 (\<open>None\<close> is a failure of the
  collaborator) and the two configured bounds.\<close>

record 'v AnswerEnv =
  redact :: "string \<Rightarrow> (string \<times> PIIReport) option"
  embed :: "string \<Rightarrow> 'v option"
  search :: "'v \<Rightarrow> nat \<Rightarrow> Hit list"
  assemble :: "string \<Rightarrow> Hit list \<Rightarrow> string"
  complete :: "string \<Rightarrow> string option"
  configured_k :: nat
  context_budget :: nat

text \<open>Modelled from the spec: the context is bounded by a character budget, and the
  lowest-ranked chunks are the first to go.\<close>

fun within_budget :: "nat \<Rightarrow> Hit list \<Rightarrow> Hit list" where
  "within_budget b [] = []"
| "within_budget b (h # hs) =
     (if length (hit_text h) \<le> b then h # within_budget (b - length (hit_text h)) hs else [])"

text \<open>Modelled from the spec: one source per distinct pair of title and URL, in the order of
  the best score, that is of the first occurrence.\<close>

fun distinct_sources ::
  "(string \<times> string) list \<Rightarrow> (string \<times> string) list \<Rightarrow> (string \<times> string) list" where
  "distinct_sources seen [] = []"
| "distinct_sources seen (s # ss) =
     (if s \<in> set seen then distinct_sources seen ss else s # distinct_sources (s # seen) ss)"

text \<open>Modelled from the spec: the steps after the redaction, on the text they are given: embed
  it, search the index, build the bounded prompt, call the completion provider.\<close>

definition downstream ::
  "'v AnswerEnv \<Rightarrow> string
    \<Rightarrow> (answer_error + string \<times> (string \<times> string) list) \<times> outbound list" where
  "downstream env text =
     (case embed env text of
        None \<Rightarrow> (Inl EmbeddingUnavailable, [ToEmbedding text])
      | Some v \<Rightarrow>
          let hits = search env v (configured_k env);
              prompt = assemble env text (within_budget (context_budget env) hits)
          in (case complete env prompt of
                None \<Rightarrow> (Inl ServiceUnavailable, [ToEmbedding text, ToCompletion prompt])
              | Some completion \<Rightarrow>
                  (Inr (completion,
                        distinct_sources [] (map (\<lambda>h. (hit_title h, hit_url h)) hits)),
                   [ToEmbedding text, ToCompletion prompt])))"

text \<open>Modelled from the spec: \<open>answer(query_text)\<close>. The query is redacted first; if the report
  counts at least one entity, \<open>pii_filtered\<close> is set and the redacted text is the one all later
  steps use. (With a count of zero the gate returns the text as it is, by section 8.)\<close>

definition answer ::
  "'v AnswerEnv \<Rightarrow> string \<Rightarrow> (answer_error + AnswerResult) \<times> outbound list" where
  "answer env query_text =
     (case redact env query_text of
        None \<Rightarrow> (Inl RedactionUnavailable, [])
      | Some (redacted_text, report) \<Rightarrow>
          let filtered = (0 < total_count report);
              text = (if filtered then redacted_text else query_text)
          in (case downstream env text of
                (Inl e, out) \<Rightarrow> (Inl e, out)
              | (Inr (completion, srcs), out) \<Rightarrow>
                  (Inr \<lparr>response_text = completion, sources = srcs, pii_filtered = filtered,
                        pii_report = (if filtered then Some report else None)\<rparr>, out)))"

text \<open>A small instance of the collaborators, for evaluating the operation.\<close>

definition example_report :: PIIReport where
  "example_report = \<lparr>total_count = 1, entities = [(''EMAIL_ADDRESS'', 1)]\<rparr>"

definition example_env :: "nat AnswerEnv" where
  "example_env =
     \<lparr>redact = (\<lambda>s. if s = ''Who is jane@x.com?''
                    then Some (''Who is <EMAIL_ADDRESS>?'', example_report)
                    else if s = ''Who is joe@y.org?''
                    then Some (''Who is <EMAIL_ADDRESS>?'', example_report)
                    else Some (s, \<lparr>total_count = 0, entities = []\<rparr>)),
      embed = (\<lambda>s. Some (length s)),
      search = (\<lambda>v k. take k
                  [\<lparr>hit_title = ''Staff'', hit_url = ''/staff'', hit_text = ''Contact <PERSON>''\<rparr>,
                   \<lparr>hit_title = ''Staff'', hit_url = ''/staff'', hit_text = ''Desk 4''\<rparr>]),
      assemble = (\<lambda>q hs. concat (map hit_text hs) @ ''|'' @ q),
      complete = (\<lambda>p. Some ''See the staff page.''),
      configured_k = 2,
      context_budget = 20\<rparr>"

section \<open>TypeScript declarations as data\<close>

text \<open>
  Several properties of the front end are about the declared shape of the payloads (which
  fields an interface has, what they are called, which are optional). An interface
  declaration is therefore kept twice: as a list of field declarations, so that field names
  are values one can reason about, and as a record, used by the component code.
\<close>

datatype ts_type =
    TString
  | TNumber
  | TBoolean
  | TDate
  | TNamed string
  | TArray ts_type
  | TIndexed ts_type
  | TLiterals "string list"
  | TOrNull ts_type
  | TObject "field_decl list"
and field_decl = Field (fname: string) (optional: bool) (ftype: ts_type)

text \<open>\<open>TIndexed t\<close> is the index signature \<open>{ [key: string]: t }\<close>, \<open>TLiterals\<close> a union of
  string literal types, \<open>TObject\<close> an inline object type; \<open>optional\<close> is the \<open>?\<close> mark.\<close>

fun field_named :: "string \<Rightarrow> field_decl list \<Rightarrow> field_decl option" where
  "field_named n [] = None"
| "field_named n (f # fs) = (if fname f = n then Some f else field_named n fs)"

definition field_names :: "field_decl list \<Rightarrow> string list" where
  "field_names fs = map fname fs"

subsection \<open>models/indexing.model.ts\<close>

text \<open>\<^verbatim>\<open>export type IndexingStatusEnum = 'idle' | 'in_progress' | 'completed' | 'failed';\<close>\<close>

definition IndexingStatusEnum_decl :: ts_type where
  "IndexingStatusEnum_decl = TLiterals [''idle'', ''in_progress'', ''completed'', ''failed'']"

datatype IndexingStatusEnum = Idle | In_progress | Completed | Failed

fun status_literal :: "IndexingStatusEnum \<Rightarrow> string" where
  "status_literal Idle = ''idle''"
| "status_literal In_progress = ''in_progress''"
| "status_literal Completed = ''completed''"
| "status_literal Failed = ''failed''"

definition IndexingProgress_decl :: "field_decl list" where
  "IndexingProgress_decl =
    [Field ''status'' False (TNamed ''IndexingStatusEnum''),
     Field ''current_space'' True TString,
     Field ''total_spaces'' False TNumber,
     Field ''processed_spaces'' False TNumber,
     Field ''total_documents'' False TNumber,
     Field ''processed_documents'' False TNumber,
     Field ''current_message'' True TString,
     Field ''error_message'' True TString,
     Field ''total_pii_filtered'' True TNumber,
     Field ''pii_by_type'' True (TIndexed TNumber)]"

definition IndexingStatus_decl :: "field_decl list" where
  "IndexingStatus_decl =
    [Field ''last_indexed'' True TString,
     Field ''is_indexing'' False TBoolean,
     Field ''total_documents'' False TNumber,
     Field ''total_spaces'' False TNumber,
     Field ''next_scheduled_run'' True TString,
     Field ''progress'' True (TNamed ''IndexingProgress''),
     Field ''last_pii_filtered'' True TNumber,
     Field ''last_pii_by_type'' True (TIndexed TNumber)]"

text \<open>
  A JavaScript \<open>number\<close> is a double: a finite value, given by the real number it denotes,
  or one of the three special values. The sign of zero is left out.
\<close>

datatype number = Num real | PosInfinity | NegInfinity | NaN

text \<open>
  The quotient and the product of two finite doubles are the exact results rounded: to the
  nearest double, or to an infinity when the exact result is too large. The rounding of
  IEEE 754 is the argument \<open>rnd\<close> of the two operations; nothing is assumed of it.
\<close>

fun js_div :: "(real \<Rightarrow> number) \<Rightarrow> number \<Rightarrow> number \<Rightarrow> number" where
  "js_div rnd NaN y = NaN"
| "js_div rnd x NaN = NaN"
| "js_div rnd (Num a) (Num b) =
     (if b = 0 then (if a = 0 then NaN else if 0 < a then PosInfinity else NegInfinity)
      else rnd (a / b))"
| "js_div rnd (Num a) y = Num 0"
| "js_div rnd PosInfinity (Num b) = (if b < 0 then NegInfinity else PosInfinity)"
| "js_div rnd NegInfinity (Num b) = (if b < 0 then PosInfinity else NegInfinity)"
| "js_div rnd x y = NaN"

fun js_mul :: "(real \<Rightarrow> number) \<Rightarrow> number \<Rightarrow> number \<Rightarrow> number" where
  "js_mul rnd NaN y = NaN"
| "js_mul rnd x NaN = NaN"
| "js_mul rnd (Num a) (Num b) = rnd (a * b)"
| "js_mul rnd (Num a) PosInfinity =
     (if a = 0 then NaN else if 0 < a then PosInfinity else NegInfinity)"
| "js_mul rnd (Num a) NegInfinity =
     (if a = 0 then NaN else if 0 < a then NegInfinity else PosInfinity)"
| "js_mul rnd PosInfinity (Num b) =
     (if b = 0 then NaN else if 0 < b then PosInfinity else NegInfinity)"
| "js_mul rnd NegInfinity (Num b) =
     (if b = 0 then NaN else if 0 < b then NegInfinity else PosInfinity)"
| "js_mul rnd PosInfinity PosInfinity = PosInfinity"
| "js_mul rnd NegInfinity NegInfinity = PosInfinity"
| "js_mul rnd x y = NegInfinity"

record IndexingProgress =
  status :: IndexingStatusEnum
  current_space :: "string option"
  total_spaces :: number
  processed_spaces :: number
  total_documents :: number
  processed_documents :: number
  current_message :: "string option"
  error_message :: "string option"
  total_pii_filtered :: "number option"
  pii_by_type :: "(string \<times> number) list option"

record IndexingStatus =
  last_indexed :: "string option"
  is_indexing :: bool
  total_documents :: number
  total_spaces :: number
  next_scheduled_run :: "string option"
  progress :: "IndexingProgress option"
  last_pii_filtered :: "number option"
  last_pii_by_type :: "(string \<times> number) list option"

subsection \<open>models/chat.model.ts\<close>

definition ChatMessage_decl :: "field_decl list" where
  "ChatMessage_decl =
    [Field ''message'' False TString,
     Field ''session_id'' True TString]"

definition PIIInfo_decl :: "field_decl list" where
  "PIIInfo_decl =
    [Field ''total_count'' False TNumber,
     Field ''entities'' False (TIndexed TNumber)]"

definition Source_decl :: "field_decl list" where
  "Source_decl =
    [Field ''title'' False TString,
     Field ''space'' False TString,
     Field ''url'' False TString]"

definition ChatResponse_decl :: "field_decl list" where
  "ChatResponse_decl =
    [Field ''response'' False TString,
     Field ''sources'' False (TArray (TNamed ''Source'')),
     Field ''pii_filtered'' False TBoolean,
     Field ''pii_info'' True (TNamed ''PIIInfo''),
     Field ''session_id'' True TString,
     Field ''timestamp'' False TString]"

definition ConversationMessage_decl :: "field_decl list" where
  "ConversationMessage_decl =
    [Field ''role'' False (TLiterals [''user'', ''assistant'']),
     Field ''content'' False TString,
     Field ''timestamp'' False TDate,
     Field ''sources'' True (TArray (TNamed ''Source'')),
     Field ''pii_filtered'' True TBoolean,
     Field ''pii_info'' True (TNamed ''PIIInfo'')]"

record ChatMessage =
  message :: string
  session_id :: "string option"

record PIIInfo =
  total_count :: number
  entities :: "(string \<times> number) list"

record Source =
  title :: string
  space :: string
  url :: string

record ChatResponse =
  response :: string
  sources :: "Source list"
  pii_filtered :: bool
  pii_info :: "PIIInfo option"
  session_id :: "string option"
  timestamp :: string

datatype role = User | Assistant

text \<open>A \<open>Date\<close> is built in two ways by the chat component: \<open>new Date()\<close>, the reading of the
  clock in milliseconds, and \<open>new Date(s)\<close> from the time stamp string of a response.\<close>

datatype Date = DateAt int | DateOfString string

record ConversationMessage =
  role :: role
  content :: string
  timestamp :: Date
  sources :: "Source list option"
  pii_filtered :: "bool option"
  pii_info :: "PIIInfo option"

section \<open>The chat component (components/chat/chat.component.ts)\<close>

record ChatComponent =
  messages :: "ConversationMessage list"
  userInput :: string
  isLoading :: bool
  sessionId :: string

text \<open>
  What a method does besides changing the component's fields: the request handed to
  \<open>chatService.sendMessage\<close> (a POST of the chat message), a call of \<open>scrollToBottom\<close>,
  a line on the console with the error value, \<open>event.preventDefault()\<close>.
\<close>

datatype 'e effect =
    PostMessage ChatMessage
  | ScrollToBottom
  | ConsoleError string 'e
  | PreventDefault

text \<open>\<open>String.prototype.trim\<close> removes white space and line terminators at both ends. A
  \<open>char\<close> is one code unit below 256, where these are the code units 9 to 13, 32 and 160.\<close>

definition js_whitespace :: "char \<Rightarrow> bool" where
  "js_whitespace c \<longleftrightarrow>
     of_char c \<in> {9::nat, 10, 11, 12, 13, 32, 160}"

definition trim :: "string \<Rightarrow> string" where
  "trim s = rev (dropWhile js_whitespace (rev (dropWhile js_whitespace s)))"

definition substr :: "string \<Rightarrow> nat \<Rightarrow> nat \<Rightarrow> string" where
  "substr s start len = take len (drop start s)"

definition digit_char :: "nat \<Rightarrow> char" where
  "digit_char d = ''0123456789'' ! d"

function decimal_nat :: "nat \<Rightarrow> string" where
  "decimal_nat n =
     (if n < 10 then [digit_char n] else decimal_nat (n div 10) @ [digit_char (n mod 10)])"
  by pat_completeness auto
termination
  by (relation "measure (\<lambda>n. n)") auto

declare decimal_nat.simps [simp del]

definition decimal :: "int \<Rightarrow> string" where
  "decimal i = (if i < 0 then CHR ''-'' # decimal_nat (nat (- i)) else decimal_nat (nat i))"

text \<open>
  \<^verbatim>\<open>return `session_${Date.now()}_${Math.random().toString(36).substr(2, 9)}`;\<close>
  The two readings of the environment are arguments: \<open>now\<close> is \<open>Date.now()\<close> and \<open>r\<close> is the
  string \<open>Math.random().toString(36)\<close>.
\<close>

definition generateSessionId :: "int \<Rightarrow> string \<Rightarrow> string" where
  "generateSessionId now r = ''session_'' @ decimal now @ ''_'' @ substr r 2 9"

text \<open>
  \<open>Math.random()\<close> lies in \<open>[0, 1)\<close>; written in base 36 it is \<open>0\<close> or \<open>0.\<close> followed by
  digits out of \<open>0-9a-z\<close> (no exponent is printed for a radix other than ten).
\<close>

definition base36_digit :: "char \<Rightarrow> bool" where
  "base36_digit c \<longleftrightarrow> c \<in> set ''0123456789abcdefghijklmnopqrstuvwxyz''"

definition decimal_digit :: "char \<Rightarrow> bool" where
  "decimal_digit c \<longleftrightarrow> c \<in> set ''0123456789''"

fun radix36_unit :: "string \<Rightarrow> bool" where
  "radix36_unit [] = False"
| "radix36_unit [c] = (c = CHR ''0'')"
| "radix36_unit (c # d # ds) =
     (c = CHR ''0'' \<and> d = CHR ''.'' \<and> ds \<noteq> [] \<and> list_all base36_digit ds)"

text \<open>The field initialisers and the constructor.\<close>

definition ChatComponent_new :: "int \<Rightarrow> string \<Rightarrow> ChatComponent" where
  "ChatComponent_new now r =
     \<lparr>messages = [], userInput = [], isLoading = False, sessionId = generateSessionId now r\<rparr>"

definition error_text :: string where
  "error_text = ''Sorry, I encountered an error processing your request. Please try again.''"

definition sendMessage :: "int \<Rightarrow> ChatComponent \<Rightarrow> ChatComponent \<times> 'e effect list" where
  "sendMessage now c =
     (if trim (userInput c) = [] \<or> isLoading c then (c, [])
      else
        let userMessage =
              \<lparr>role = User, content = userInput c, timestamp = DateAt now,
               sources = None, pii_filtered = None, pii_info = None\<rparr>;
            query = userInput c
        in (c\<lparr>messages := messages c @ [userMessage], userInput := [], isLoading := True\<rparr>,
            [PostMessage \<lparr>message = query, ChatMessage.session_id = Some (sessionId c)\<rparr>,
             ScrollToBottom]))"

text \<open>The two callbacks given to \<open>subscribe\<close>.\<close>

definition sendMessage_next :: "ChatResponse \<Rightarrow> ChatComponent \<Rightarrow> ChatComponent \<times> 'e effect list" where
  "sendMessage_next resp c =
     (let assistantMessage =
            \<lparr>role = Assistant, content = response resp,
             timestamp = DateOfString (ChatResponse.timestamp resp),
             sources = Some (ChatResponse.sources resp),
             pii_filtered = Some (ChatResponse.pii_filtered resp),
             pii_info = ChatResponse.pii_info resp\<rparr>
      in (c\<lparr>messages := messages c @ [assistantMessage], isLoading := False\<rparr>,
          [ScrollToBottom]))"

definition sendMessage_error :: "int \<Rightarrow> 'e \<Rightarrow> ChatComponent \<Rightarrow> ChatComponent \<times> 'e effect list" where
  "sendMessage_error now err c =
     (let errorMessage =
            \<lparr>role = Assistant, content = error_text, timestamp = DateAt now,
             sources = None, pii_filtered = None, pii_info = None\<rparr>
      in (c\<lparr>messages := messages c @ [errorMessage], isLoading := False\<rparr>,
          [ConsoleError ''Error sending message:'' err]))"

record KeyEvent =
  key :: string
  shiftKey :: bool

definition onEnterKey :: "int \<Rightarrow> KeyEvent \<Rightarrow> ChatComponent \<Rightarrow> ChatComponent \<times> 'e effect list" where
  "onEnterKey now ev c =
     (if key ev = ''Enter'' \<and> \<not> shiftKey ev
      then (let (c', es) = sendMessage now c in (c', PreventDefault # es))
      else (c, []))"

definition useSuggestion :: "int \<Rightarrow> string \<Rightarrow> ChatComponent \<Rightarrow> ChatComponent \<times> 'e effect list" where
  "useSuggestion now suggestion c = sendMessage now (c\<lparr>userInput := suggestion\<rparr>)"

text \<open>
  Everything that can happen to a component after its construction: the text area writes
  \<open>userInput\<close> (\<open>ngModel\<close>), the send button, a key press, a suggestion button, and the two
  callbacks of a request. Each comes with the reading of the clock at that moment.
\<close>

datatype 'e event =
    Typed string
  | SendClicked
  | KeyDown KeyEvent
  | SuggestionClicked string
  | ResponseArrived ChatResponse
  | RequestFailed 'e

fun step :: "int \<Rightarrow> 'e event \<Rightarrow> ChatComponent \<Rightarrow> ChatComponent \<times> 'e effect list" where
  "step now (Typed s) c = (c\<lparr>userInput := s\<rparr>, [])"
| "step now SendClicked c = sendMessage now c"
| "step now (KeyDown ev) c = onEnterKey now ev c"
| "step now (SuggestionClicked s) c = useSuggestion now s c"
| "step now (ResponseArrived resp) c = sendMessage_next resp c"
| "step now (RequestFailed err) c = sendMessage_error now err c"

fun run :: "(int \<times> 'e event) list \<Rightarrow> ChatComponent \<Rightarrow> ChatComponent \<times> 'e effect list" where
  "run [] c = (c, [])"
| "run ((now, ev) # evs) c =
     (let (c', es) = step now ev c; (c'', es') = run evs c' in (c'', es @ es'))"

fun posted :: "'e effect list \<Rightarrow> ChatMessage list" where
  "posted [] = []"
| "posted (PostMessage m # es) = m # posted es"
| "posted (e # es) = posted es"

section \<open>The indexing service (services/indexing.service.ts)\<close>








text \<open>
  The RxJS operators the service uses, by the requests they lead to. An observable is the
  function from \<open>k\<close> to its \<open>k\<close>-th emission, if it emits that often: a pair of the time in
  milliseconds since the subscription (the deadline of the timer) and the value.
  \<^item> \<open>interval(p)\<close> emits \<open>0, 1, 2, ...\<close>, the first after \<open>p\<close> ms and then every \<open>p\<close> ms;
  \<^item> \<open>startWith(v)\<close> emits \<open>v\<close> at once and then what its source emits;
  \<^item> \<open>switchMap(f)\<close> subscribes to \<open>f v\<close> at each emission \<open>v\<close> of its source and drops the
    inner observable of the emission before. \<open>f v\<close> is an HTTP call here, which sends its
    request when it is subscribed to, so the emission kept is the request and the time it is
    sent. When an inner observable fails, the result of \<open>switchMap\<close> fails: it unsubscribes
    from its source, and no later request is sent (there is no \<open>catchError\<close> or \<open>retry\<close>).
  What becomes of the \<open>k\<close>-th request is the argument \<open>outcome\<close>: answered before the next
  emission of the source, failed before it, or still pending then and dropped.
\<close>

datatype outcome = Answered | Errored | Superseded












section \<open>The indexing status component (components/indexing-status)\<close>




text \<open>
  The fields of the component, and everything that writes them: the \<open>next\<close> and \<open>error\<close>
  callbacks of the status requests (those of \<open>loadStatus\<close> and of the polling have the same
  bodies), the two buttons with the callbacks of their requests, and the two timers that
  clear the action message, 3000 ms after a success and 5000 ms after a failure. An \<open>error\<close>
  callback also writes the error to the console. The result is the new component and the
  requests sent.
\<close>

record IndexingStatusComponent =
  status :: "IndexingStatus option"
  isStarting :: bool
  isStopping :: bool
  actionMessage :: string
  actionError :: bool

definition IndexingStatusComponent_new :: IndexingStatusComponent where
  "IndexingStatusComponent_new =
     \<lparr>status = None, isStarting = False, isStopping = False, actionMessage = [],
      actionError = False\<rparr>"



text \<open>
  \<^verbatim>\<open>
  getSpacesProgress(): number {
    if (!this.status?.progress || this.status.progress.total_spaces === 0) {
      return 0;
    }
    return (this.status.progress.processed_spaces / this.status.progress.total_spaces) * 100;
  }\<close>
  The field \<open>status\<close> of the component is \<open>IndexingStatus | null\<close>; a progress object, when
  there is one, is truthy; \<open>=== 0\<close> holds of the number zero only.
\<close>

definition getSpacesProgress :: "(real \<Rightarrow> number) \<Rightarrow> IndexingStatusComponent \<Rightarrow> number" where
  "getSpacesProgress rnd c =
     (case status c of
        None \<Rightarrow> Num 0
      | Some s \<Rightarrow>
          (case progress s of
             None \<Rightarrow> Num 0
           | Some p \<Rightarrow>
               if IndexingProgress.total_spaces p = Num 0 then Num 0
               else js_mul rnd
                      (js_div rnd (processed_spaces p) (IndexingProgress.total_spaces p))
                      (Num 100)))"

section \<open>The words of the specification\<close>

text \<open>The states of an Indexing Run, the fields of its record and the fields of the result
  of the answer operation, as the specification lists them.\<close>

definition spec_IndexingRun_states :: "string list" where
  "spec_IndexingRun_states = [''idle'', ''running'', ''stopping'', ''completed'', ''failed'']"

definition spec_IndexingRun_fields :: "string list" where
  "spec_IndexingRun_fields =
     [''status'', ''started_at'', ''total_spaces'', ''processed_spaces'', ''total_documents'',
      ''processed_documents'', ''current_space'', ''current_message'', ''error_message'',
      ''pii_report'']"

definition spec_AnswerResult_fields :: "string list" where
  "spec_AnswerResult_fields = [''response_text'', ''sources'', ''pii_filtered'', ''pii_report'']"

section \<open>Sample inputs\<close>

definition example_component :: ChatComponent where
  "example_component =
     \<lparr>messages = [\<lparr>role = User, content = ''What is our leave policy?'',
                    timestamp = DateAt 1700000000500, sources = None, pii_filtered = None,
                    pii_info = None\<rparr>],
      userInput = ''next question'', isLoading = True,
      sessionId = ''session_1700000000123_4fzyo82mv''\<rparr>"

definition blank_component :: ChatComponent where
  "blank_component =
     example_component\<lparr>userInput := [CHR 0x20, CHR 0x09, CHR 0x0A], isLoading := False\<rparr>"

definition example_events :: "(int \<times> string event) list" where
  "example_events =
     [(1700000001000, Typed ''What is our leave policy?''),
      (1700000002000, SendClicked),
      (1700000002500, SendClicked),
      (1700000003000, RequestFailed ''HttpErrorResponse 503''),
      (1700000004000, SuggestionClicked ''Search for API documentation'')]"

definition example_progress :: "real \<Rightarrow> real \<Rightarrow> IndexingProgress" where
  "example_progress processed spaces =
     \<lparr>IndexingProgress.status = In_progress, current_space = Some ''DOCS'',
      total_spaces = Num spaces, processed_spaces = Num processed,
      total_documents = Num 40, processed_documents = Num 12,
      current_message = Some ''Indexing space DOCS'', error_message = None,
      total_pii_filtered = Some (Num 3), pii_by_type = Some [(''EMAIL_ADDRESS'', Num 3)]\<rparr>"

definition example_status :: "IndexingProgress option \<Rightarrow> IndexingStatus" where
  "example_status p =
     \<lparr>last_indexed = None, is_indexing = True, total_documents = Num 40, total_spaces = Num 4,
      next_scheduled_run = None, progress = p, last_pii_filtered = None,
      last_pii_by_type = None\<rparr>"



text \<open>The rounding at the sample counters: the quotient \<open>1 / 4\<close> and the product
  \<open>0.25 * 100\<close> are doubles, which rounding leaves as they are.\<close>

definition sample_rounding :: "real \<Rightarrow> number" where
  "sample_rounding x = Num x"

definition example_indexing :: "IndexingStatus option \<Rightarrow> IndexingStatusComponent" where
  "example_indexing st = IndexingStatusComponent_new\<lparr>status := st\<rparr>"

section \<open>Helper lemmas\<close>

lemma decimal_nat_small: "n < 10 \<Longrightarrow> decimal_nat n = [digit_char n]"
  by (simp add: decimal_nat.simps)

lemma decimal_nat_large:
  "10 \<le> n \<Longrightarrow> decimal_nat n = decimal_nat (n div 10) @ [digit_char (n mod 10)]"
  by (subst decimal_nat.simps) simp

lemma digit_char_decimal: "d < 10 \<Longrightarrow> decimal_digit (digit_char d)"
proof -
  assume "d < 10"
  then have "d \<in> {0, 1, 2, 3, 4, 5, 6, 7, 8, 9}" by auto
  then show ?thesis by (auto simp: decimal_digit_def digit_char_def)
qed

lemma decimal_nat_digits: "list_all decimal_digit (decimal_nat n) \<and> decimal_nat n \<noteq> []"
proof (induction n rule: decimal_nat.induct)
  case (1 n)
  show ?case
  proof (cases "n < 10")
    case True
    then show ?thesis by (simp add: decimal_nat_small digit_char_decimal)
  next
    case False
    then have "10 \<le> n" by simp
    moreover have "n mod 10 < 10" by simp
    ultimately show ?thesis using 1 False
      by (simp add: decimal_nat_large digit_char_decimal)
  qed
qed

lemma step_sessionId: "sessionId (fst (step now ev c)) = sessionId c"
  by (cases ev)
     (auto simp: sendMessage_def onEnterKey_def useSuggestion_def sendMessage_next_def
        sendMessage_error_def Let_def split: prod.splits if_splits)

lemma step_posted:
  "m \<in> set (posted (snd (step now ev c))) \<Longrightarrow> ChatMessage.session_id m = Some (sessionId c)"
  by (cases ev)
     (auto simp: sendMessage_def onEnterKey_def useSuggestion_def sendMessage_next_def
        sendMessage_error_def Let_def split: prod.splits if_splits)

lemma posted_append: "posted (xs @ ys) = posted xs @ posted ys"
  by (induction xs rule: posted.induct) auto

lemma run_Cons:
  "run ((now, ev) # evs) c =
     (fst (run evs (fst (step now ev c))),
      snd (step now ev c) @ snd (run evs (fst (step now ev c))))"
  by (simp add: split_beta)

lemma run_sessionId: "sessionId (fst (run evs c)) = sessionId c"
proof (induction evs arbitrary: c)
  case Nil
  show ?case by simp
next
  case (Cons a evs)
  obtain now ev where a: "a = (now, ev)" by (cases a)
  show ?case
    unfolding a run_Cons using Cons [of "fst (step now ev c)"] step_sessionId [of now ev c]
    by simp
qed

lemma run_posted:
  "m \<in> set (posted (snd (run evs c))) \<Longrightarrow> ChatMessage.session_id m = Some (sessionId c)"
proof (induction evs arbitrary: c)
  case Nil
  then show ?case by simp
next
  case (Cons a evs)
  obtain now ev where a: "a = (now, ev)" by (cases a)
  show ?case
    using Cons.prems Cons.IH [of "fst (step now ev c)"] step_sessionId [of now ev c]
      step_posted [of m now ev c]
    unfolding a run_Cons by (auto simp add: posted_append)
qed

lemma substr_base36:
  "radix36_unit r \<Longrightarrow> list_all base36_digit (substr r 2 9)"
  by (cases r rule: radix36_unit.cases) (auto simp: substr_def list_all_iff dest: in_set_takeD)






lemma answer_on_redacted:
  "redact env q = Some (r, rep) \<Longrightarrow> 0 < PIIReport.total_count rep \<Longrightarrow>
     snd (answer env q) = snd (downstream env r)
     \<and> map_sum id response_text (fst (answer env q)) = map_sum id fst (fst (downstream env r))
     \<and> map_sum id AnswerResult.sources (fst (answer env q))
         = map_sum id snd (fst (downstream env r))"
  by (simp add: answer_def split: prod.splits sum.splits)

lemma downstream_embeds_its_text:
  "ToEmbedding t \<in> set (snd (downstream env r)) \<Longrightarrow> t = r"
  by (auto simp: downstream_def Let_def split: option.splits)

lemma downstream_prompts_from_its_text:
  "ToCompletion p \<in> set (snd (downstream env r)) \<Longrightarrow> \<exists>hs. p = assemble env r hs"
  by (auto simp: downstream_def Let_def split: option.splits)

lemma example_posted:
  "posted (snd (run example_events (ChatComponent_new 1700000000123 ''0.4fzyo82mvyr'')))
     = [\<lparr>message = ''What is our leave policy?'',
         ChatMessage.session_id = Some ''session_1700000000123_4fzyo82mv''\<rparr>,
        \<lparr>message = ''Search for API documentation'',
         ChatMessage.session_id = Some ''session_1700000000123_4fzyo82mv''\<rparr>]"
  by (simp add: example_events_def ChatComponent_new_def generateSessionId_def substr_def
        decimal_def decimal_nat_small decimal_nat_large digit_char_def
        sendMessage_def sendMessage_error_def useSuggestion_def trim_def js_whitespace_def
        Let_def)

lemma example_session_id:
  "generateSessionId 1700000000123 ''0.4fzyo82mvyr'' = ''session_1700000000123_4fzyo82mv''"
  by (simp add: generateSessionId_def substr_def decimal_def decimal_nat_small
        decimal_nat_large digit_char_def)

section \<open>The redacted query\<close>

text \<open>
  Claim C1. Whenever the redaction report of a query counts at least one entity, everything
  the answer operation sends out is computed from the redacted text alone: what it sends is
  what the later steps send when they are given the redacted text; the text sent to the
  embedding provider is the redacted text and every prompt sent to the completion provider
  is assembled from it; and two queries with the same redacted text send the same texts and
  get the same answer and sources, so that nothing of the original query beyond its
  redaction reaches a provider. The operation writes to no store.
\<close>

theorem answer_uses_redacted_text:
  assumes "redact env q = Some (r, rep)" and "0 < PIIReport.total_count rep"
  shows "snd (answer env q) = snd (downstream env r)
    \<and> (\<forall>t. ToEmbedding t \<in> set (snd (answer env q)) \<longrightarrow> t = r)
    \<and> (\<forall>p. ToCompletion p \<in> set (snd (answer env q)) \<longrightarrow> (\<exists>hs. p = assemble env r hs))
    \<and> (\<forall>q' rep'. redact env q' = Some (r, rep') \<and> 0 < PIIReport.total_count rep' \<longrightarrow>
          snd (answer env q') = snd (answer env q)
          \<and> map_sum id response_text (fst (answer env q'))
              = map_sum id response_text (fst (answer env q))
          \<and> map_sum id AnswerResult.sources (fst (answer env q'))
              = map_sum id AnswerResult.sources (fst (answer env q)))"
proof -
  note here = answer_on_redacted [OF assms]
  have a: "snd (answer env q) = snd (downstream env r)"
    using here by (rule conjunct1)
  have b: "\<forall>t. ToEmbedding t \<in> set (snd (answer env q)) \<longrightarrow> t = r"
    unfolding a using downstream_embeds_its_text by blast
  have c: "\<forall>p. ToCompletion p \<in> set (snd (answer env q)) \<longrightarrow> (\<exists>hs. p = assemble env r hs)"
    unfolding a using downstream_prompts_from_its_text by blast
  have d: "\<forall>q' rep'. redact env q' = Some (r, rep') \<and> 0 < PIIReport.total_count rep' \<longrightarrow>
          snd (answer env q') = snd (answer env q)
          \<and> map_sum id response_text (fst (answer env q'))
              = map_sum id response_text (fst (answer env q))
          \<and> map_sum id AnswerResult.sources (fst (answer env q'))
              = map_sum id AnswerResult.sources (fst (answer env q))"
    using here answer_on_redacted [of env _ r] by simp
  show ?thesis using a b c d by (simp only: simp_thms)
qed

text \<open>The query \<open>Who is jane@x.com?\<close> is redacted to \<open>Who is <EMAIL_ADDRESS>?\<close> with one
  entity counted; only the redacted text goes out, and the query about \<open>joe@y.org\<close>, which
  has the same redaction, sends the same.\<close>

theorem answer_uses_redacted_text_witness:
  "redact example_env ''Who is jane@x.com?'' = Some (''Who is <EMAIL_ADDRESS>?'', example_report)
   \<and> 0 < PIIReport.total_count example_report
   \<and> snd (answer example_env ''Who is jane@x.com?'')
     = [ToEmbedding ''Who is <EMAIL_ADDRESS>?'',
        ToCompletion ''Contact <PERSON>|Who is <EMAIL_ADDRESS>?'']
   \<and> snd (answer example_env ''Who is joe@y.org?'') = snd (answer example_env ''Who is jane@x.com?'')"
proof -
  have r: "redact example_env ''Who is jane@x.com?''
      = Some (''Who is <EMAIL_ADDRESS>?'', example_report)"
    by (simp add: example_env_def)
  have r': "redact example_env ''Who is joe@y.org?''
      = Some (''Who is <EMAIL_ADDRESS>?'', example_report)"
    by (simp add: example_env_def)
  have t: "0 < PIIReport.total_count example_report"
    by (simp add: example_report_def)
  have d: "snd (downstream example_env ''Who is <EMAIL_ADDRESS>?'')
      = [ToEmbedding ''Who is <EMAIL_ADDRESS>?'',
         ToCompletion ''Contact <PERSON>|Who is <EMAIL_ADDRESS>?'']"
    by (simp add: downstream_def example_env_def Let_def)
  note th = answer_uses_redacted_text [OF r t]
  have a: "snd (answer example_env ''Who is jane@x.com?'')
      = snd (downstream example_env ''Who is <EMAIL_ADDRESS>?'')"
    using th by (rule conjunct1)
  have "\<forall>q' rep'. redact example_env q' = Some (''Who is <EMAIL_ADDRESS>?'', rep')
          \<and> 0 < PIIReport.total_count rep' \<longrightarrow>
          snd (answer example_env q') = snd (answer example_env ''Who is jane@x.com?'')"
    using th by blast
  then have b: "snd (answer example_env ''Who is joe@y.org?'')
      = snd (answer example_env ''Who is jane@x.com?'')"
    using r' t by blast
  show ?thesis using r t a b d by (simp only: simp_thms)
qed

section \<open>The indexing status type\<close>

text \<open>
  Claim C2, as amended. The status type that status-polling callers see has exactly four
  values, written \<open>idle\<close>, \<open>in_progress\<close>, \<open>completed\<close> and \<open>failed\<close>, and every status value
  is one of them. Of the five states the specification lists, \<open>idle\<close>, \<open>completed\<close> and
  \<open>failed\<close> are among them; \<open>running\<close> and \<open>stopping\<close> are not.
\<close>

theorem IndexingStatusEnum_four_values:
  "range status_literal = {''idle'', ''in_progress'', ''completed'', ''failed''}
   \<and> card (range status_literal) = 4
   \<and> IndexingStatusEnum_decl = TLiterals (map status_literal [Idle, In_progress, Completed, Failed])
   \<and> range status_literal \<inter> set spec_IndexingRun_states = {''idle'', ''completed'', ''failed''}"
proof -
  have u: "(UNIV :: IndexingStatusEnum set) = {Idle, In_progress, Completed, Failed}"
    using IndexingStatusEnum.exhaust by auto
  have r: "range status_literal = {''idle'', ''in_progress'', ''completed'', ''failed''}"
    unfolding u by simp
  have c: "card (range status_literal) = 4" unfolding r by simp
  have i: "range status_literal \<inter> set spec_IndexingRun_states = {''idle'', ''completed'', ''failed''}"
    unfolding r spec_IndexingRun_states_def by auto
  show ?thesis using r c i by (simp add: IndexingStatusEnum_decl_def)
qed

text \<open>Claim C2 as the specification states it fails: the status \<open>in_progress\<close>, which a caller
  can observe, is none of \<open>idle\<close>, \<open>running\<close>, \<open>stopping\<close>, \<open>completed\<close>, \<open>failed\<close>.\<close>

theorem IndexingStatusEnum_in_progress_not_run_state:
  "status_literal In_progress \<notin> set spec_IndexingRun_states"
  by (simp add: spec_IndexingRun_states_def)

section \<open>The chat response\<close>

text \<open>
  Claim C3, as amended. The chat response delivered to callers has the fields \<open>response\<close> (a
  string, the answer text), \<open>sources\<close>, the boolean \<open>pii_filtered\<close> and the optional
  \<open>pii_info\<close>, whose shape is \<open>{total_count, entities: entity type \<rightarrow> count}\<close>, and besides
  them an optional \<open>session_id\<close> and a \<open>timestamp\<close>. The chat component takes the answer
  text from \<open>response\<close> and the PII counts from \<open>pii_info\<close>.
\<close>

theorem ChatResponse_shape:
  "field_named ''response'' ChatResponse_decl = Some (Field ''response'' False TString)
   \<and> field_named ''sources'' ChatResponse_decl
       = Some (Field ''sources'' False (TArray (TNamed ''Source'')))
   \<and> field_named ''pii_filtered'' ChatResponse_decl = Some (Field ''pii_filtered'' False TBoolean)
   \<and> field_named ''pii_info'' ChatResponse_decl = Some (Field ''pii_info'' True (TNamed ''PIIInfo''))
   \<and> field_named ''session_id'' ChatResponse_decl = Some (Field ''session_id'' True TString)
   \<and> field_named ''timestamp'' ChatResponse_decl = Some (Field ''timestamp'' False TString)
   \<and> PIIInfo_decl =[Field ''total_count'' False TNumber, Field ''entities'' False (TIndexed TNumber)]
   \<and> field_names ChatResponse_decl
       = [''response'', ''sources'', ''pii_filtered'', ''pii_info'', ''session_id'', ''timestamp'']
   \<and> content (last (messages (fst (sendMessage_next resp c)))) = response resp
   \<and> ConversationMessage.pii_info (last (messages (fst (sendMessage_next resp c))))
       = ChatResponse.pii_info resp"
  by (simp add: ChatResponse_decl_def PIIInfo_decl_def field_names_def sendMessage_next_def)

text \<open>Claim C3 as the specification states it fails: the chat response has no field named
  \<open>response_text\<close> and none named \<open>pii_report\<close>.\<close>

theorem ChatResponse_no_response_text:
  "''response_text'' \<notin> set (field_names ChatResponse_decl)
   \<and> ''pii_report'' \<notin> set (field_names ChatResponse_decl)"
  by (simp add: ChatResponse_decl_def field_names_def)

section \<open>The progress payload\<close>

text \<open>
  Claim C4, as amended. The fields of the progress payload are the fields of the Indexing
  Run record without \<open>started_at\<close> and \<open>pii_report\<close>, together with the two fields
  \<open>total_pii_filtered\<close> and \<open>pii_by_type\<close>, which carry the PII report; so every field of the
  payload other than these two is a field of the Indexing Run record.
\<close>

theorem IndexingProgress_fields:
  "set (field_names IndexingProgress_decl)
     = (set spec_IndexingRun_fields - {''started_at'', ''pii_report''})
       \<union> {''total_pii_filtered'', ''pii_by_type''}
   \<and> set (field_names IndexingProgress_decl) - {''total_pii_filtered'', ''pii_by_type''}
       \<subseteq> set spec_IndexingRun_fields"
  by (auto simp add: IndexingProgress_decl_def spec_IndexingRun_fields_def field_names_def)

text \<open>Claim C4 as the specification states it fails: \<open>total_pii_filtered\<close> is a field of the
  progress payload and is not in the list of the fields of the Indexing Run record.\<close>

theorem IndexingProgress_total_pii_filtered_outside:
  "''total_pii_filtered'' \<in> set (field_names IndexingProgress_decl)
   \<and> ''total_pii_filtered'' \<notin> set spec_IndexingRun_fields"
  by (simp add: IndexingProgress_decl_def spec_IndexingRun_fields_def field_names_def)

section \<open>The indexing control interface\<close>



section \<open>The failure of a chat request\<close>

text \<open>
  Claim C6. Whatever the error of a failed chat request is, the component appends one
  assistant message with the fixed text ``Sorry, I encountered an error processing your
  request. Please try again.'' and sets \<open>isLoading\<close> to false; the new state does not depend
  on the error value (which goes to the console only), the earlier messages, \<open>userInput\<close> and
  \<open>sessionId\<close> are as before.
\<close>

theorem sendMessage_error_fixed_text:
  "sendMessage_error now err c =
     (c\<lparr>messages := messages c @
           [\<lparr>role = Assistant,
             content = ''Sorry, I encountered an error processing your request. Please try again.'',
             timestamp = DateAt now, sources = None, pii_filtered = None, pii_info = None\<rparr>],
        isLoading := False\<rparr>,
      [ConsoleError ''Error sending message:'' err])
   \<and> fst (sendMessage_error now err c) = fst (sendMessage_error now err' c)
   \<and> isLoading (fst (sendMessage_error now err c)) = False
   \<and> userInput (fst (sendMessage_error now err c)) = userInput c
   \<and> sessionId (fst (sendMessage_error now err c)) = sessionId c
   \<and> butlast (messages (fst (sendMessage_error now err c))) = messages c
   \<and> step now (RequestFailed err) c = sendMessage_error now err c"
  by (simp add: sendMessage_error_def error_text_def)

text \<open>A request of a component with one message fails with a 503: the messages are then the
  old one and the fixed text, whatever the error says.\<close>

theorem sendMessage_error_fixed_text_witness:
  "map content
     (messages (fst (sendMessage_error 1700000003000 ''HttpErrorResponse 503'' example_component)))
     = [''What is our leave policy?'',
        ''Sorry, I encountered an error processing your request. Please try again.'']
   \<and> isLoading (fst (sendMessage_error 1700000003000 ''HttpErrorResponse 503'' example_component))
       = False"
  using sendMessage_error_fixed_text
          [of 1700000003000 "''HttpErrorResponse 503''" example_component "''timeout''"]
  by (simp add: example_component_def)

section \<open>Polling\<close>




section \<open>Sending a message\<close>

text \<open>
  Claim C8. When the trimmed user input is empty or a request is in flight (\<open>isLoading\<close>),
  \<open>sendMessage()\<close> does nothing: the component is unchanged (its messages, \<open>userInput\<close>,
  \<open>isLoading\<close> and \<open>sessionId\<close>) and no request is sent, nor anything else done.
\<close>

theorem sendMessage_noop:
  "trim (userInput c) = [] \<or> isLoading c \<Longrightarrow> sendMessage now c = (c, [])"
  by (simp add: sendMessage_def)

text \<open>Both cases: a component that is loading, and one whose input is a space, a tab and a
  line feed.\<close>

theorem sendMessage_noop_witness:
  "isLoading example_component
   \<and> (sendMessage 1700000002500 example_component :: ChatComponent \<times> string effect list)
       = (example_component, [])
   \<and> trim (userInput blank_component) = []
   \<and> (sendMessage 1700000002500 blank_component :: ChatComponent \<times> string effect list)
       = (blank_component, [])"
proof -
  have l: "isLoading example_component"
    by (simp add: example_component_def)
  have t: "trim (userInput blank_component) = []"
    by (simp add: blank_component_def trim_def js_whitespace_def)
  have a: "(sendMessage 1700000002500 example_component :: ChatComponent \<times> string effect list)
      = (example_component, [])"
    using l by (intro sendMessage_noop disjI2)
  have b: "(sendMessage 1700000002500 blank_component :: ChatComponent \<times> string effect list)
      = (blank_component, [])"
    using t by (intro sendMessage_noop disjI1)
  show ?thesis using l t a b by (simp only: simp_thms)
qed

section \<open>The progress of the spaces\<close>

text \<open>
  Claim C9. \<open>getSpacesProgress()\<close> returns a number in every case and divides only by a
  total that is not zero: it is 0 when there is no status, no progress record or when
  \<open>total_spaces\<close> is 0, and otherwise \<open>processed_spaces / total_spaces * 100\<close> in the
  arithmetic of JavaScript; for finite counters that is the rounded quotient of the two, whose
  divisor is not zero, times 100.
\<close>

theorem getSpacesProgress_guarded:
  "(status c = None \<longrightarrow> getSpacesProgress rnd c = Num 0)
   \<and> (status c = Some s \<and> progress s = None \<longrightarrow> getSpacesProgress rnd c = Num 0)
   \<and> (status c = Some s \<and> progress s = Some p \<and> IndexingProgress.total_spaces p = Num 0
        \<longrightarrow> getSpacesProgress rnd c = Num 0)
   \<and> (status c = Some s \<and> progress s = Some p \<and> IndexingProgress.total_spaces p \<noteq> Num 0
        \<longrightarrow> getSpacesProgress rnd c
            = js_mul rnd (js_div rnd (processed_spaces p) (IndexingProgress.total_spaces p))
                (Num 100))
   \<and> (status c = Some s \<and> progress s = Some p \<and> processed_spaces p = Num a
        \<and> IndexingProgress.total_spaces p = Num b \<and> b \<noteq> 0
        \<longrightarrow> getSpacesProgress rnd c = js_mul rnd (rnd (a / b)) (Num 100))"
  by (simp add: getSpacesProgress_def)

text \<open>One space of four done is 25 per cent (both \<open>1 / 4\<close> and \<open>0.25 * 100\<close> are doubles); no
  spaces at all, no progress record or no status is 0.\<close>

theorem getSpacesProgress_guarded_witness:
  "getSpacesProgress sample_rounding
     (example_indexing (Some (example_status (Some (example_progress 1 4))))) = Num 25
   \<and> getSpacesProgress sample_rounding
     (example_indexing (Some (example_status (Some (example_progress 0 0))))) = Num 0
   \<and> getSpacesProgress sample_rounding (example_indexing (Some (example_status None))) = Num 0
   \<and> getSpacesProgress sample_rounding (example_indexing None) = Num 0"
  using getSpacesProgress_guarded
          [of "example_indexing (Some (example_status (Some (example_progress 1 4))))"
              sample_rounding
              "example_status (Some (example_progress 1 4))" "example_progress 1 4" 1 4]
        getSpacesProgress_guarded
          [of "example_indexing (Some (example_status (Some (example_progress 0 0))))"
              sample_rounding
              "example_status (Some (example_progress 0 0))" "example_progress 0 0" 0 0]
        getSpacesProgress_guarded
          [of "example_indexing (Some (example_status None))" sample_rounding
              "example_status None" "example_progress 0 0" 0 0]
        getSpacesProgress_guarded
          [of "example_indexing None" sample_rounding
              "example_status None" "example_progress 0 0" 0 0]
  by (simp add: example_indexing_def example_status_def example_progress_def
        IndexingStatusComponent_new_def sample_rounding_def)

section \<open>The session identifier\<close>

text \<open>
  Claim C10. The session identifier of a chat component is made once, by the constructor,
  as \<open>session_\<close>, the decimal time stamp, an underscore and the nine characters (or fewer)
  that follow \<open>0.\<close> in the base-36 random number, which are digits or lower-case letters; it
  is not empty. Whatever happens to the component afterwards (typing, clicks, key presses,
  responses, failures), \<open>sessionId\<close> keeps this value and every chat message sent carries it
  as its \<open>session_id\<close>.
\<close>

theorem session_id_fixed:
  "sessionId (fst (run evs (ChatComponent_new now r))) = generateSessionId now r
   \<and> (\<forall>m \<in> set (posted (snd (run evs (ChatComponent_new now r)))).
         ChatMessage.session_id m = Some (generateSessionId now r))
   \<and> generateSessionId now r = ''session_'' @ decimal now @ ''_'' @ take 9 (drop 2 r)
   \<and> generateSessionId now r \<noteq> []
   \<and> (0 \<le> now \<longrightarrow> list_all decimal_digit (decimal now) \<and> decimal now \<noteq> [])
   \<and> (radix36_unit r \<longrightarrow> list_all base36_digit (take 9 (drop 2 r)))"
proof -
  have s: "sessionId (ChatComponent_new now r) = generateSessionId now r"
    by (simp add: ChatComponent_new_def)
  have a: "sessionId (fst (run evs (ChatComponent_new now r))) = generateSessionId now r"
    using run_sessionId [of evs "ChatComponent_new now r"] s by simp
  have b: "\<forall>m \<in> set (posted (snd (run evs (ChatComponent_new now r)))).
         ChatMessage.session_id m = Some (generateSessionId now r)"
    using run_posted [of _ evs "ChatComponent_new now r"] s by simp
  have c: "generateSessionId now r = ''session_'' @ decimal now @ ''_'' @ take 9 (drop 2 r)"
    by (simp add: generateSessionId_def substr_def)
  have d: "generateSessionId now r \<noteq> []"
    by (simp add: generateSessionId_def)
  have e: "0 \<le> now \<longrightarrow> list_all decimal_digit (decimal now) \<and> decimal now \<noteq> []"
    using decimal_nat_digits [of "nat now"] by (simp add: decimal_def)
  have f: "radix36_unit r \<longrightarrow> list_all base36_digit (take 9 (drop 2 r))"
    using substr_base36 [of r] by (simp add: substr_def)
  show ?thesis using a b c d e f by blast
qed

text \<open>A component made at time 1700000000123 with the random string \<open>0.4fzyo82mvyr\<close>: after
  a message, a second click while loading, a failure and a suggestion, it has sent two
  messages, both with the session identifier \<open>session_1700000000123_4fzyo82mv\<close>.\<close>

theorem session_id_fixed_witness:
  "sessionId (fst (run example_events (ChatComponent_new 1700000000123 ''0.4fzyo82mvyr'')))
     = ''session_1700000000123_4fzyo82mv''
   \<and> map ChatMessage.session_id
        (posted (snd (run example_events (ChatComponent_new 1700000000123 ''0.4fzyo82mvyr''))))
     = [Some ''session_1700000000123_4fzyo82mv'', Some ''session_1700000000123_4fzyo82mv'']
   \<and> (0::int) \<le> 1700000000123
   \<and> radix36_unit ''0.4fzyo82mvyr''
   \<and> list_all base36_digit ''4fzyo82mv''"
proof -
  note th = session_id_fixed [of example_events 1700000000123 "''0.4fzyo82mvyr''"]
  have a: "sessionId (fst (run example_events (ChatComponent_new 1700000000123 ''0.4fzyo82mvyr'')))
      = ''session_1700000000123_4fzyo82mv''"
    using th example_session_id by simp
  have b: "map ChatMessage.session_id
        (posted (snd (run example_events (ChatComponent_new 1700000000123 ''0.4fzyo82mvyr''))))
      = [Some ''session_1700000000123_4fzyo82mv'', Some ''session_1700000000123_4fzyo82mv'']"
    unfolding example_posted by simp
  have r: "radix36_unit ''0.4fzyo82mvyr''"
    by (simp add: base36_digit_def)
  have "list_all base36_digit (take 9 (drop 2 ''0.4fzyo82mvyr''))"
    using th r by blast
  then have c: "list_all base36_digit ''4fzyo82mv''" by simp
  show ?thesis using a b r c by simp
qed

end
